theory Spec2Isabelle
  imports Main "HOL-Library.Word"
begin

section \<open>Static reflection: descriptors, traversal and enum conversion\<close>

text \<open>
  The header \<^verbatim>\<open>fc/reflect/reflect.hpp\<close> is a set of macros. A registration macro expands
  to an explicit specialisation of the class template \<^verbatim>\<open>fc::reflector\<close>; the members of
  that specialisation (\<^verbatim>\<open>visit\<close>, the member counts, \<^verbatim>\<open>to_string\<close>,
  \<^verbatim>\<open>from_string\<close>) are the program. The embedding takes the macro arguments as data and
  translates the body every macro expands to. The sequence macros of Boost.Preprocessor
  are read as list operations: \<^verbatim>\<open>BOOST_PP_SEQ_FOR_EACH\<close> expands its macro once per
  element, in order; \<^verbatim>\<open>BOOST_PP_SEQ_SIZE\<close> is the number of elements;
  \<^verbatim>\<open>BOOST_PP_STRINGIZE(x)\<close> is the token \<open>x\<close> as a string.
\<close>

subsection \<open>Struct-like types\<close>

type_synonym type_id = string

text \<open>
  \<^verbatim>\<open>reflector<TYPE>\<close> as \<^verbatim>\<open>FC_REFLECT_DERIVED(TYPE, INHERITS, MEMBERS)\<close> declares it. Each
  name in \<^verbatim>\<open>INHERITS\<close> is used as \<^verbatim>\<open>fc::reflector<base>\<close>, which the enumeration
  \<^verbatim>\<open>member_count_enum\<close> needs complete at that point: it denotes a specialisation that
  was declared before, and so the descriptor holds the descriptors of its bases.
\<close>

datatype struct_reflector =
  Struct_reflector (get_typename: type_id) (INHERITS: "struct_reflector list") (MEMBERS: "string list")

text \<open>
  The first field is the token \<^verbatim>\<open>TYPE\<close>: the class the member pointers belong to, and,
  as a string, what \<^verbatim>\<open>get_typename<TYPE>::name()\<close> returns.
\<close>

text \<open>\<^verbatim>\<open>&type::elem\<close>, the pointer to member \<open>elem\<close> of class \<open>type\<close>.\<close>

datatype member_pointer = Member_pointer type_id string

text \<open>
  One call \<^verbatim>\<open>visitor.operator()<member_type, type, &type::elem>("elem")\<close>: the three
  template arguments and the string argument.
\<close>

record 'ty member_call =
  member_type :: 'ty
  class_type :: type_id
  member :: member_pointer
  name :: string

text \<open>
  A visitor is a function object whose call operator may change whatever it refers to
  and may throw: here a function from the call and the state before to either the
  exception thrown or the state after.
\<close>

type_synonym ('ty, 'e, 's) visitor = "'ty member_call \<Rightarrow> 's \<Rightarrow> 'e + 's"

text \<open>
  \<^verbatim>\<open>FC_REFLECT_VISIT_MEMBER\<close>. The member's type is
  \<^verbatim>\<open>decltype(((type*)nullptr)->elem)\<close>, which the class definition of the host program
  decides: \<open>decl\<close> gives, for a class and a member name, the declared type.
\<close>

definition FC_REFLECT_VISIT_MEMBER ::
  "(type_id \<Rightarrow> string \<Rightarrow> 'ty) \<Rightarrow> type_id \<Rightarrow> ('ty, 'e, 's) visitor \<Rightarrow> string \<Rightarrow> 's \<Rightarrow> 'e + 's" where
  "FC_REFLECT_VISIT_MEMBER decl type visitor elem s =
     visitor \<lparr>member_type = decl type elem, class_type = type,
              member = Member_pointer type elem, name = elem\<rparr> s"

text \<open>\<^verbatim>\<open>BOOST_PP_SEQ_FOR_EACH( FC_REFLECT_VISIT_MEMBER, v, MEMBERS )\<close>\<close>

fun visit_members ::
  "(type_id \<Rightarrow> string \<Rightarrow> 'ty) \<Rightarrow> type_id \<Rightarrow> ('ty, 'e, 's) visitor \<Rightarrow> string list \<Rightarrow> 's \<Rightarrow> 'e + 's" where
  "visit_members decl type v [] s = Inr s"
| "visit_members decl type v (elem # rest) s =
     (case FC_REFLECT_VISIT_MEMBER decl type v elem s of
        Inl e \<Rightarrow> Inl e
      | Inr s' \<Rightarrow> visit_members decl type v rest s')"

text \<open>
  \<^verbatim>\<open>FC_REFLECT_DERIVED_IMPL_INLINE\<close>: the body of \<^verbatim>\<open>visit\<close> is the expansion of
  \<^verbatim>\<open>FC_REFLECT_VISIT_BASE\<close> over \<^verbatim>\<open>INHERITS\<close> (each a call of
  \<^verbatim>\<open>fc::reflector<base>::visit( visitor )\<close>), followed by the expansion of
  \<^verbatim>\<open>FC_REFLECT_VISIT_MEMBER\<close> over \<^verbatim>\<open>MEMBERS\<close>.
\<close>

fun visit ::
  "(type_id \<Rightarrow> string \<Rightarrow> 'ty) \<Rightarrow> struct_reflector \<Rightarrow> ('ty, 'e, 's) visitor \<Rightarrow> 's \<Rightarrow> 'e + 's"
and visit_bases ::
  "(type_id \<Rightarrow> string \<Rightarrow> 'ty) \<Rightarrow> struct_reflector list \<Rightarrow> ('ty, 'e, 's) visitor \<Rightarrow> 's \<Rightarrow> 'e + 's"
where
  "visit decl (Struct_reflector type inherits members) v s =
     (case visit_bases decl inherits v s of
        Inl e \<Rightarrow> Inl e
      | Inr s' \<Rightarrow> visit_members decl type v members s')"
| "visit_bases decl [] v s = Inr s"
| "visit_bases decl (base # rest) v s =
     (case visit decl base v s of
        Inl e \<Rightarrow> Inl e
      | Inr s' \<Rightarrow> visit_bases decl rest v s')"

text \<open>
  \<^verbatim>\<open>member_count_enum\<close>. The enumerators are constant expressions, where an overflow
  is ill-formed, so the counts of a program that compiles are the natural numbers
  written here. \<^verbatim>\<open>total_member_count\<close> is the token sequence
  \<^verbatim>\<open>local_member_count + reflector<B1>::total_member_count + ...\<close>, a sum that
  associates to the left.
\<close>

definition local_member_count :: "struct_reflector \<Rightarrow> nat" where
  "local_member_count r = length (MEMBERS r)"

fun total_member_count :: "struct_reflector \<Rightarrow> nat"
and FC_REFLECT_BASE_MEMBER_COUNT :: "nat \<Rightarrow> struct_reflector list \<Rightarrow> nat"
where
  "total_member_count (Struct_reflector type inherits members) =
     FC_REFLECT_BASE_MEMBER_COUNT (length members) inherits"
| "FC_REFLECT_BASE_MEMBER_COUNT acc [] = acc"
| "FC_REFLECT_BASE_MEMBER_COUNT acc (elem # rest) =
     FC_REFLECT_BASE_MEMBER_COUNT (acc + total_member_count elem) rest"

subsection \<open>Enumerations\<close>

type_synonym int64_t = "64 word"

text \<open>
  \<^verbatim>\<open>reflector<ENUM>\<close> as \<^verbatim>\<open>FC_REFLECT_ENUM(ENUM, FIELDS)\<close> declares it. The value of
  \<^verbatim>\<open>enum_type::elem\<close> is the host program's: the functions below take it as
  \<open>enum_type\<close>, from an enumerator's name to its value, a word as wide as the enum's
  underlying type.
\<close>

record enum_reflector =
  ENUM :: type_id
  FIELDS :: "string list"

type_synonym ('w, 'e, 's) enum_visitor = "'w word \<Rightarrow> string \<Rightarrow> 's \<Rightarrow> 'e + 's"

text \<open>\<^verbatim>\<open>v.operator()<enum_type::elem>("elem")\<close>\<close>

definition FC_REFLECT_VISIT_ENUM ::
  "(string \<Rightarrow> 'w::len word) \<Rightarrow> ('w, 'e, 's) enum_visitor \<Rightarrow> string \<Rightarrow> 's \<Rightarrow> 'e + 's" where
  "FC_REFLECT_VISIT_ENUM enum_type v elem s = v (enum_type elem) elem s"

fun visit_fields ::
  "(string \<Rightarrow> 'w::len word) \<Rightarrow> ('w, 'e, 's) enum_visitor \<Rightarrow> string list \<Rightarrow> 's \<Rightarrow> 'e + 's" where
  "visit_fields enum_type v [] s = Inr s"
| "visit_fields enum_type v (elem # rest) s =
     (case FC_REFLECT_VISIT_ENUM enum_type v elem s of
        Inl e \<Rightarrow> Inl e
      | Inr s' \<Rightarrow> visit_fields enum_type v rest s')"

text \<open>\<^verbatim>\<open>reflector<ENUM>::visit\<close>\<close>

definition enum_visit ::
  "(string \<Rightarrow> 'w::len word) \<Rightarrow> enum_reflector \<Rightarrow> ('w, 'e, 's) enum_visitor \<Rightarrow> 's \<Rightarrow> 'e + 's" where
  "enum_visit enum_type r v s = visit_fields enum_type v (FIELDS r) s"

text \<open>
  \<^verbatim>\<open>ENUM(i)\<close> with \<^verbatim>\<open>int64_t i\<close>: the conversion of a 64-bit integer to the enum. For an
  enum with a fixed underlying type (every \<^verbatim>\<open>enum class\<close> has one) the result is the value
  of that type congruent to \<open>i\<close>, which keeps the low bits of \<open>i\<close>. An enum without a fixed
  underlying type converts the values of its range in the same way; the language leaves
  the others open.
\<close>

definition ENUM_cast :: "int64_t \<Rightarrow> 'w::len word" where
  "ENUM_cast i = ucast i"

text \<open>
  The \<^verbatim>\<open>switch\<close> of \<^verbatim>\<open>to_string\<close>: one \<^verbatim>\<open>case enum_type::elem: return "elem";\<close> for
  each field, \<open>None\<close> for the \<^verbatim>\<open>default\<close> label. Two equal case labels do not compile,
  so at most one label of a compiled switch matches and the order of the test is not
  observable.
\<close>

fun FC_REFLECT_ENUM_TO_STRING :: "(string \<Rightarrow> 'w::len word) \<Rightarrow> string list \<Rightarrow> 'w word \<Rightarrow> string option" where
  "FC_REFLECT_ENUM_TO_STRING enum_type [] x = None"
| "FC_REFLECT_ENUM_TO_STRING enum_type (elem # rest) x =
     (if x = enum_type elem then Some elem else FC_REFLECT_ENUM_TO_STRING enum_type rest x)"

text \<open>
  \<^verbatim>\<open>throw_bad_enum_cast\<close> is declared in the header and defined elsewhere. The two
  conversion functions take it as \<open>throw\<close>: \<open>Some e\<close> when the call leaves by the
  exception \<open>e\<close>, \<open>None\<close> when it returns. The result of \<^verbatim>\<open>to_string\<close> is a
  \<^verbatim>\<open>const char*\<close>: \<open>Some\<close> of the string literal, or \<open>None\<close> for \<^verbatim>\<open>nullptr\<close>.
\<close>

definition to_string ::
  "(int64_t \<Rightarrow> string \<Rightarrow> 'e option) \<Rightarrow> (string \<Rightarrow> 'w::len word) \<Rightarrow> enum_reflector \<Rightarrow> int64_t
     \<Rightarrow> 'e + string option" where
  "to_string throw enum_type r i =
     (case FC_REFLECT_ENUM_TO_STRING enum_type (FIELDS r) (ENUM_cast i) of
        Some elem \<Rightarrow> Inr (Some elem)
      | None \<Rightarrow> (case throw i (ENUM r) of Some e \<Rightarrow> Inl e | None \<Rightarrow> Inr None))"

text \<open>
  \<^verbatim>\<open>strcmp\<close> of the C library on the contents of two C strings (the bytes before the
  terminating NUL): zero when they are equal, otherwise the sign of the difference of the
  first two bytes that differ, read as \<^verbatim>\<open>unsigned char\<close>. Only the comparison of the result
  with zero is used.
\<close>

fun strcmp :: "string \<Rightarrow> string \<Rightarrow> int" where
  "strcmp [] [] = 0"
| "strcmp [] (b # bs) = - 1"
| "strcmp (a # as) [] = 1"
| "strcmp (a # as) (b # bs) =
     (if a = b then strcmp as bs
      else if (of_char a :: nat) < of_char b then - 1 else 1)"

text \<open>
  The chain of \<^verbatim>\<open>if( strcmp( s, "elem" ) == 0 ) return enum_type::elem;\<close>, one for each
  field; \<open>None\<close> when control falls through all of them.
\<close>

fun FC_REFLECT_ENUM_FROM_STRING :: "(string \<Rightarrow> 'w::len word) \<Rightarrow> string list \<Rightarrow> string \<Rightarrow> 'w word option" where
  "FC_REFLECT_ENUM_FROM_STRING enum_type [] s = None"
| "FC_REFLECT_ENUM_FROM_STRING enum_type (elem # rest) s =
     (if strcmp s elem = 0 then Some (enum_type elem)
      else FC_REFLECT_ENUM_FROM_STRING enum_type rest s)"

text \<open>\<^verbatim>\<open>ENUM()\<close>, the value-initialised enum, is zero.\<close>

definition from_string ::
  "(string \<Rightarrow> string \<Rightarrow> 'e option) \<Rightarrow> (string \<Rightarrow> 'w::len word) \<Rightarrow> enum_reflector \<Rightarrow> string
     \<Rightarrow> 'e + 'w word" where
  "from_string throw enum_type r s =
     (case FC_REFLECT_ENUM_FROM_STRING enum_type (FIELDS r) s of
        Some x \<Rightarrow> Inr x
      | None \<Rightarrow> (case throw s (ENUM r) of Some e \<Rightarrow> Inl e | None \<Rightarrow> Inr 0))"

subsection \<open>The failure signal\<close>

datatype bad_enum_cast =
  Bad_enum_cast_int int64_t string
| Bad_enum_cast_str string string

text \<open>
  Modelled from the spec: the body of \<^verbatim>\<open>throw_bad_enum_cast( int64_t i, const char* e )\<close>
  is missing from the sources. It signals a bad enum cast failure carrying the offending
  integer value and the enum's registered type name.
\<close>

definition throw_bad_enum_cast_int :: "int64_t \<Rightarrow> string \<Rightarrow> bad_enum_cast option" where
  "throw_bad_enum_cast_int i e = Some (Bad_enum_cast_int i e)"

text \<open>
  Modelled from the spec: the body of \<^verbatim>\<open>throw_bad_enum_cast( const char* k, const char* e )\<close>
  is missing from the sources. It signals a bad enum cast failure carrying the offending
  string and the enum's registered type name.
\<close>

definition throw_bad_enum_cast_str :: "string \<Rightarrow> string \<Rightarrow> bad_enum_cast option" where
  "throw_bad_enum_cast_str k e = Some (Bad_enum_cast_str k e)"

text \<open>A signal that returns control to its caller.\<close>

definition returning_signal :: "'k \<Rightarrow> string \<Rightarrow> bad_enum_cast option" where
  "returning_signal k e = None"

subsection \<open>The class template and its specialisations\<close>

text \<open>
  \<^verbatim>\<open>fc::reflector<T>\<close> is the primary template unless a registration macro has
  specialised it for \<open>T\<close>.
\<close>

datatype reflector =
  Unspecialized
| Struct_spec struct_reflector
| Enum_spec enum_reflector

text \<open>
  \<^verbatim>\<open>is_defined\<close> and \<^verbatim>\<open>is_enum\<close>: \<^verbatim>\<open>fc::false_type\<close> twice in the primary template,
  \<^verbatim>\<open>true_type\<close> and \<^verbatim>\<open>false_type\<close> in \<^verbatim>\<open>FC_REFLECT_DERIVED\<close>, \<^verbatim>\<open>true_type\<close> twice in
  \<^verbatim>\<open>FC_REFLECT_ENUM\<close>.
\<close>

fun is_defined :: "reflector \<Rightarrow> bool" where
  "is_defined Unspecialized = False"
| "is_defined (Struct_spec r) = True"
| "is_defined (Enum_spec r) = True"

fun is_enum :: "reflector \<Rightarrow> bool" where
  "is_enum Unspecialized = False"
| "is_enum (Struct_spec r) = False"
| "is_enum (Enum_spec r) = True"

text \<open>
  The names each class declares. Naming a member the class does not declare is an error
  of the build. The primary template declares \<^verbatim>\<open>visit\<close> only for the documentation tool.
\<close>

datatype member_name =
  M_type | M_is_defined | M_is_enum | M_visit
| M_local_member_count | M_total_member_count | M_to_string | M_from_string

fun declares :: "reflector \<Rightarrow> member_name \<Rightarrow> bool" where
  "declares Unspecialized m = (m = M_type \<or> m = M_is_defined \<or> m = M_is_enum)"
| "declares (Struct_spec r) m =
     (m = M_type \<or> m = M_is_defined \<or> m = M_is_enum \<or> m = M_visit
      \<or> m = M_local_member_count \<or> m = M_total_member_count)"
| "declares (Enum_spec r) m =
     (m = M_is_defined \<or> m = M_is_enum \<or> m = M_visit \<or> m = M_to_string \<or> m = M_from_string)"

text \<open>
  The registration macros as a translation unit invokes them. \<^verbatim>\<open>FC_REFLECT_FWD\<close> is left
  out: its body names \<^verbatim>\<open>MEMBERS\<close> and \<^verbatim>\<open>INHERITS\<close>, which are not among its parameters.
\<close>

datatype registration =
  FC_REFLECT_DERIVED type_id "type_id list" "string list"
| FC_REFLECT_ENUM type_id "string list"

text \<open>\<^verbatim>\<open>FC_REFLECT(TYPE, MEMBERS)\<close> passes \<^verbatim>\<open>BOOST_PP_SEQ_NIL\<close> for the bases.\<close>

definition FC_REFLECT :: "type_id \<Rightarrow> string list \<Rightarrow> registration" where
  "FC_REFLECT type members = FC_REFLECT_DERIVED type [] members"

fun registered_type :: "registration \<Rightarrow> type_id" where
  "registered_type (FC_REFLECT_DERIVED type inherits members) = type"
| "registered_type (FC_REFLECT_ENUM enum elems) = enum"

text \<open>
  The specialisations in scope, as a function from the template argument. A base must
  name a struct specialisation: \<^verbatim>\<open>fc::reflector<base>::total_member_count\<close> is
  declared by no other.
\<close>

fun base_reflectors :: "(type_id \<Rightarrow> reflector) \<Rightarrow> type_id list \<Rightarrow> struct_reflector list option" where
  "base_reflectors scope [] = Some []"
| "base_reflectors scope (base # rest) =
     (case scope base of
        Struct_spec r \<Rightarrow>
          (case base_reflectors scope rest of None \<Rightarrow> None | Some rs \<Rightarrow> Some (r # rs))
      | _ \<Rightarrow> None)"

text \<open>
  One registration: \<open>None\<close> when it does not compile (the type has a specialisation
  already, or a base has no struct specialisation), otherwise the scope with the new
  specialisation.
\<close>

fun expand :: "(type_id \<Rightarrow> reflector) \<Rightarrow> registration \<Rightarrow> (type_id \<Rightarrow> reflector) option" where
  "expand scope (FC_REFLECT_DERIVED type inherits members) =
     (if is_defined (scope type) then None
      else case base_reflectors scope inherits of
             None \<Rightarrow> None
           | Some bases \<Rightarrow> Some (scope(type := Struct_spec (Struct_reflector type bases members))))"
| "expand scope (FC_REFLECT_ENUM enum elems) =
     (if is_defined (scope enum) then None
      else Some (scope(enum := Enum_spec \<lparr>ENUM = enum, FIELDS = elems\<rparr>)))"

fun translation_unit :: "(type_id \<Rightarrow> reflector) \<Rightarrow> registration list \<Rightarrow> (type_id \<Rightarrow> reflector) option" where
  "translation_unit scope [] = Some scope"
| "translation_unit scope (reg # rest) =
     (case expand scope reg of None \<Rightarrow> None | Some scope' \<Rightarrow> translation_unit scope' rest)"

definition no_registration :: "type_id \<Rightarrow> reflector" where
  "no_registration T = Unspecialized"

subsection \<open>The traversal as the specification words it\<close>

text \<open>
  The members a traversal of \<open>T\<close> is to reach: those of the first base (recursively), ...,
  those of the last base, then the own members in declaration order, each with its
  declared name, its static type and the accessor of that member.
\<close>

definition own_member :: "(type_id \<Rightarrow> string \<Rightarrow> 'ty) \<Rightarrow> type_id \<Rightarrow> string \<Rightarrow> 'ty member_call" where
  "own_member decl T m =
     \<lparr>member_type = decl T m, class_type = T, member = Member_pointer T m, name = m\<rparr>"

fun members_in_order :: "(type_id \<Rightarrow> string \<Rightarrow> 'ty) \<Rightarrow> struct_reflector \<Rightarrow> 'ty member_call list" where
  "members_in_order decl (Struct_reflector T Bs ms) =
     concat (map (members_in_order decl) Bs) @ map (own_member decl T) ms"

text \<open>The enumerators of an enum, in declared order: the value and the declared name.\<close>

definition enumerators :: "(string \<Rightarrow> 'w::len word) \<Rightarrow> enum_reflector \<Rightarrow> ('w word \<times> string) list" where
  "enumerators enum_type r = map (\<lambda>n. (enum_type n, n)) (FIELDS r)"

text \<open>
  Invoking a visitor once for each element of a list, in the order of the list; an
  exception ends it.
\<close>

fun invoke_each :: "('c \<Rightarrow> 's \<Rightarrow> 'e + 's) \<Rightarrow> 'c list \<Rightarrow> 's \<Rightarrow> 'e + 's" where
  "invoke_each v [] s = Inr s"
| "invoke_each v (c # cs) s = (case v c s of Inl e \<Rightarrow> Inl e | Inr s' \<Rightarrow> invoke_each v cs s')"

text \<open>The visitors that write down every call they receive and never throw.\<close>

definition record_call :: "'c \<Rightarrow> 'c list \<Rightarrow> 'e + 'c list" where
  "record_call c log = Inr (log @ [c])"

definition record_enumerator :: "'w word \<Rightarrow> string \<Rightarrow> ('w word \<times> string) list \<Rightarrow> 'e + ('w word \<times> string) list" where
  "record_enumerator x n log = Inr (log @ [(x, n)])"

subsection \<open>The scenarios of the specification\<close>

definition Point :: struct_reflector where
  "Point = Struct_reflector ''Point'' [] [''x'', ''y'']"

definition Point3D :: struct_reflector where
  "Point3D = Struct_reflector ''Point3D'' [Point] [''z'']"

definition Tag :: struct_reflector where
  "Tag = Struct_reflector ''Tag'' [] [''label'']"

definition Pixel :: struct_reflector where
  "Pixel = Struct_reflector ''Pixel'' [Point3D, Tag] [''rgb'', ''alpha'']"

fun host_decl :: "type_id \<Rightarrow> string \<Rightarrow> string" where
  "host_decl T m =
     (if m = ''label'' then ''std::string''
      else if m = ''rgb'' then ''uint32_t''
      else if m = ''alpha'' then ''uint8_t''
      else ''double'')"

text \<open>\<^verbatim>\<open>enum class Color { Red, Green, Blue };\<close> with the underlying type \<^verbatim>\<open>int\<close> of 32 bits.\<close>

definition Color :: enum_reflector where
  "Color = \<lparr>ENUM = ''Color'', FIELDS = [''Red'', ''Green'', ''Blue'']\<rparr>"

fun Color_value :: "string \<Rightarrow> 32 word" where
  "Color_value n = (if n = ''Green'' then 1 else if n = ''Blue'' then 2 else 0)"

text \<open>\<^verbatim>\<open>enum class Priority { Low = 10, High = 7 };\<close>\<close>

definition Priority :: enum_reflector where
  "Priority = \<lparr>ENUM = ''Priority'', FIELDS = [''Low'', ''High'']\<rparr>"

fun Priority_value :: "string \<Rightarrow> 32 word" where
  "Priority_value n = (if n = ''Low'' then 10 else 7)"

definition scenario :: "registration list" where
  "scenario =
     [FC_REFLECT ''Point'' [''x'', ''y''],
      FC_REFLECT_DERIVED ''Point3D'' [''Point''] [''z''],
      FC_REFLECT_ENUM ''Color'' [''Red'', ''Green'', ''Blue'']]"

text \<open>The specialisations in scope after the three registrations, and no other.\<close>

definition scenario_scope :: "type_id \<Rightarrow> reflector" where
  "scenario_scope =
     no_registration(''Point'' := Struct_spec Point, ''Point3D'' := Struct_spec Point3D,
       ''Color'' := Enum_spec Color)"

section \<open>Properties\<close>

subsection \<open>Traversal order and member counts\<close>

lemma invoke_each_append:
  "invoke_each v (xs @ ys) s =
     (case invoke_each v xs s of Inl e \<Rightarrow> Inl e | Inr s' \<Rightarrow> invoke_each v ys s')"
  by (induction xs arbitrary: s) (auto split: sum.splits)

lemma visit_members_invoke_each:
  "visit_members decl T v ms s = invoke_each v (map (own_member decl T) ms) s"
  by (induction ms arbitrary: s)
     (auto simp: FC_REFLECT_VISIT_MEMBER_def own_member_def split: sum.splits)

lemma visit_invoke_each_aux:
  "visit decl r v s = invoke_each v (members_in_order decl r) s"
  "visit_bases decl rs v s = invoke_each v (concat (map (members_in_order decl) rs)) s"
proof (induction decl r v s and decl rs v s rule: visit_visit_bases.induct)
  case (1 decl type inherits members v s)
  then show ?case
    by (simp add: invoke_each_append visit_members_invoke_each split: sum.splits)
next
  case (2 decl v s)
  show ?case by simp
next
  case (3 decl base rest v s)
  then show ?case
    by (simp add: invoke_each_append split: sum.splits)
qed

lemma invoke_each_record_call:
  "invoke_each record_call cs log = Inr (log @ cs)"
  by (induction cs arbitrary: log) (simp_all add: record_call_def)

lemma base_member_count_acc:
  "FC_REFLECT_BASE_MEMBER_COUNT acc rs = acc + sum_list (map total_member_count rs)"
  by (induction rs arbitrary: acc) simp_all

lemma total_member_count_unfold:
  "total_member_count r = local_member_count r + sum_list (map total_member_count (INHERITS r))"
  by (cases r) (simp add: base_member_count_acc local_member_count_def)

lemma length_members_in_order:
  "length (members_in_order decl r) = total_member_count r"
proof (induction decl r rule: members_in_order.induct)
  case (1 decl T Bs ms)
  have "map (length \<circ> members_in_order decl) Bs = map total_member_count Bs"
    using 1 by simp
  then have "sum_list (map (length \<circ> members_in_order decl) Bs) = sum_list (map total_member_count Bs)"
    by (rule arg_cong)
  then show ?case
    by (simp add: length_concat base_member_count_acc)
qed

text \<open>
  C1: for every struct descriptor \<open>T\<close> with bases \<open>B1..Bn\<close> and own members \<open>m1..mk\<close>,
  \<open>visit\<close> invokes the visitor once for each element of \<open>members_in_order T\<close> and in
  that order: the members of \<open>B1\<close> (recursively), ..., the members of \<open>Bn\<close>, then
  \<open>m1..mk\<close> as declared, each call passing the member's declared name, its static type and
  the pointer to that member of \<open>T\<close>. The number of calls is \<open>total_member_count T\<close>. The
  recording visitor, started on the empty log, ends with exactly that list.
\<close>

theorem visit_in_declared_order:
  "visit decl T v s = invoke_each v (members_in_order decl T) s
   \<and> visit decl T record_call [] = Inr (members_in_order decl T)
   \<and> members_in_order decl T =
       concat (map (members_in_order decl) (INHERITS T)) @ map (own_member decl (get_typename T)) (MEMBERS T)
   \<and> length (members_in_order decl T) = total_member_count T"
proof (intro conjI)
  show "visit decl T v s = invoke_each v (members_in_order decl T) s"
    by (rule visit_invoke_each_aux(1))
  show "visit decl T record_call [] = Inr (members_in_order decl T)"
    by (simp add: visit_invoke_each_aux(1) invoke_each_record_call)
  show "members_in_order decl T =
       concat (map (members_in_order decl) (INHERITS T)) @ map (own_member decl (get_typename T)) (MEMBERS T)"
    by (cases T) simp
  show "length (members_in_order decl T) = total_member_count T"
    by (rule length_members_in_order)
qed

text \<open>
  The scenario of the specification, one level deeper and with two bases: \<open>Pixel\<close>
  derives from \<open>Point3D\<close> (which derives from \<open>Point\<close>) and from \<open>Tag\<close>.
\<close>

theorem visit_in_declared_order_witness:
  "visit host_decl Pixel (record_call :: string member_call \<Rightarrow> string member_call list \<Rightarrow> unit + string member_call list) [] =
     Inr [own_member host_decl ''Point'' ''x'', own_member host_decl ''Point'' ''y'',
          own_member host_decl ''Point3D'' ''z'', own_member host_decl ''Tag'' ''label'',
          own_member host_decl ''Pixel'' ''rgb'', own_member host_decl ''Pixel'' ''alpha'']
   \<and> total_member_count Pixel = 6"
proof -
  have order: "members_in_order host_decl Pixel =
     [own_member host_decl ''Point'' ''x'', own_member host_decl ''Point'' ''y'',
      own_member host_decl ''Point3D'' ''z'', own_member host_decl ''Tag'' ''label'',
      own_member host_decl ''Pixel'' ''rgb'', own_member host_decl ''Pixel'' ''alpha'']"
    by (simp add: Pixel_def Point3D_def Point_def Tag_def)
  have "visit host_decl Pixel (record_call :: string member_call \<Rightarrow> string member_call list \<Rightarrow> unit + string member_call list) [] =
      Inr (members_in_order host_decl Pixel)"
   and "length (members_in_order host_decl Pixel) = total_member_count Pixel"
    using visit_in_declared_order [of host_decl Pixel] by (rule conjunct2 [THEN conjunct1], rule conjunct2 [THEN conjunct2, THEN conjunct2])
  then show ?thesis
    unfolding order by simp
qed

text \<open>
  C2: for every struct descriptor \<open>T\<close>, \<open>local_member_count\<close> is the number of own
  members, and \<open>total_member_count\<close> is \<open>local_member_count\<close> plus the sum of the
  \<open>total_member_count\<close> of every base, which in turn includes the bases of the bases.
\<close>

theorem member_counts:
  "local_member_count T = length (MEMBERS T)
   \<and> total_member_count T = local_member_count T + sum_list (map total_member_count (INHERITS T))"
  by (simp add: local_member_count_def total_member_count_unfold [unfolded local_member_count_def])

text \<open>Three levels of inheritance: \<open>Pixel\<close>, \<open>Point3D\<close>, \<open>Point\<close>.\<close>

theorem member_counts_witness:
  "local_member_count Pixel = 2 \<and> total_member_count Pixel = 2 + (total_member_count Point3D + total_member_count Tag)
   \<and> total_member_count Point3D = 1 + total_member_count Point \<and> total_member_count Point = 2
   \<and> total_member_count Tag = 1 \<and> total_member_count Pixel = 6"
  using member_counts [of Pixel] member_counts [of Point3D] member_counts [of Point] member_counts [of Tag]
  by (simp add: Pixel_def Point3D_def Point_def Tag_def local_member_count_def)

subsection \<open>Enum conversion\<close>

lemma strcmp_zero_iff: "strcmp a b = 0 \<longleftrightarrow> a = b"
  by (induction a b rule: strcmp.induct) auto

lemma from_string_scan_find:
  "FC_REFLECT_ENUM_FROM_STRING enum_type fs s = map_option enum_type (find (\<lambda>elem. elem = s) fs)"
  by (induction fs) (auto simp: strcmp_zero_iff)

lemma from_string_scan_member:
  "FC_REFLECT_ENUM_FROM_STRING enum_type fs s = (if s \<in> set fs then Some (enum_type s) else None)"
  by (induction fs) (auto simp: strcmp_zero_iff)

lemma to_string_scan_find:
  "FC_REFLECT_ENUM_TO_STRING enum_type fs x = find (\<lambda>elem. enum_type elem = x) fs"
  by (induction fs) auto

lemma to_string_scan_None_iff:
  "FC_REFLECT_ENUM_TO_STRING enum_type fs x = None \<longleftrightarrow> x \<notin> enum_type ` set fs"
  by (induction fs) auto

lemma to_string_scan_Some:
  "FC_REFLECT_ENUM_TO_STRING enum_type fs x = Some n \<Longrightarrow> n \<in> set fs \<and> enum_type n = x"
  by (induction fs) (auto split: if_splits)

lemma to_string_scan_distinct:
  "distinct (map enum_type fs) \<Longrightarrow> n \<in> set fs \<Longrightarrow> FC_REFLECT_ENUM_TO_STRING enum_type fs (enum_type n) = Some n"
proof (induction fs)
  case Nil
  then show ?case by simp
next
  case (Cons a fs)
  show ?case
  proof (cases "n = a")
    case True
    then show ?thesis by simp
  next
    case False
    with Cons.prems have "n \<in> set fs" and "enum_type a \<notin> enum_type ` set fs"
      by auto
    then have "enum_type n \<noteq> enum_type a"
      by (metis imageI)
    with Cons \<open>n \<in> set fs\<close> show ?thesis by simp
  qed
qed

lemma ENUM_cast_scast:
  "LENGTH('w::len) \<le> 64 \<Longrightarrow> ENUM_cast (scast (x :: 'w word) :: int64_t) = x"
  unfolding ENUM_cast_def
  by (rule bit_word_eqI) (auto simp: bit_simps dest: bit_imp_le_length)

lemma ENUM_cast_ucast:
  "LENGTH('w::len) \<le> 64 \<Longrightarrow> ENUM_cast (ucast (x :: 'w word) :: int64_t) = x"
  unfolding ENUM_cast_def
  by (rule bit_word_eqI) (auto simp: bit_simps dest: bit_imp_le_length)

text \<open>
  C3: for every enum descriptor whose registered names are pairwise distinct and whose
  enumerator values are pairwise distinct, and every registered name \<open>n\<close> with value
  \<open>enum_type n\<close>: \<open>to_string\<close> of that value returns \<open>n\<close>, and \<open>from_string\<close> of \<open>n\<close>
  returns that value. The value reaches \<^verbatim>\<open>to_string\<close> as an \<^verbatim>\<open>int64_t\<close>: sign-extended
  from an enum with a signed underlying type, zero-extended from an unsigned one; both are
  covered. The underlying type is at most 64 bits wide, as every integer type of the
  host language is.
\<close>

theorem enum_round_trip:
  fixes enum_type :: "string \<Rightarrow> 'w::len word"
  assumes "LENGTH('w) \<le> 64"
    and "distinct (FIELDS r)"
    and "distinct (map enum_type (FIELDS r))"
    and "n \<in> set (FIELDS r)"
  shows "to_string throw_i enum_type r (scast (enum_type n)) = Inr (Some n)
       \<and> to_string throw_i enum_type r (ucast (enum_type n)) = Inr (Some n)
       \<and> from_string throw_s enum_type r n = Inr (enum_type n)"
  using assms
  by (simp add: to_string_def from_string_def ENUM_cast_scast ENUM_cast_ucast
      to_string_scan_distinct from_string_scan_member)

text \<open>
  The scenario of the specification: \<open>to_string(1)\<close> is \<open>Green\<close>, \<open>from_string("Blue")\<close>
  is 2.
\<close>

theorem enum_round_trip_witness:
  "to_string throw_bad_enum_cast_int Color_value Color 1 = Inr (Some ''Green'')
   \<and> from_string throw_bad_enum_cast_str Color_value Color ''Blue'' = Inr 2"
  using enum_round_trip [of Color Color_value "''Green''" throw_bad_enum_cast_int throw_bad_enum_cast_str]
    enum_round_trip [of Color Color_value "''Blue''" throw_bad_enum_cast_int throw_bad_enum_cast_str]
  by (simp add: Color_def)

text \<open>
  C4, as amended: \<open>to_string(i)\<close> calls the signal, with the value \<open>i\<close> and the enum's
  registered name, exactly when \<^verbatim>\<open>ENUM(i)\<close>, the value \<open>i\<close> converted to the enum type,
  equals none of the registered enumerator values; when it equals one, the name of that
  enumerator is returned and nothing is raised. With the signal of the specification the
  call raises the bad-enum-cast failure carrying \<open>i\<close> and the name, and no other failure is
  ever raised.
\<close>

theorem to_string_bad_enum_cast:
  "(ENUM_cast i \<notin> enum_type ` set (FIELDS r) \<longrightarrow>
      to_string throw enum_type r i = (case throw i (ENUM r) of Some e \<Rightarrow> Inl e | None \<Rightarrow> Inr None))
   \<and> (ENUM_cast i \<in> enum_type ` set (FIELDS r) \<longrightarrow>
      (\<exists>n. n \<in> set (FIELDS r) \<and> enum_type n = ENUM_cast i
           \<and> to_string throw enum_type r i = Inr (Some n)))
   \<and> (to_string throw_bad_enum_cast_int enum_type r i = Inl (Bad_enum_cast_int i (ENUM r)))
       = (ENUM_cast i \<notin> enum_type ` set (FIELDS r))
   \<and> (to_string throw_bad_enum_cast_int enum_type r i = Inl e)
       = (ENUM_cast i \<notin> enum_type ` set (FIELDS r) \<and> e = Bad_enum_cast_int i (ENUM r))"
proof (cases "FC_REFLECT_ENUM_TO_STRING enum_type (FIELDS r) (ENUM_cast i)")
  case None
  moreover from None have "ENUM_cast i \<notin> enum_type ` set (FIELDS r)"
    by (simp add: to_string_scan_None_iff)
  ultimately show ?thesis
    by (auto simp: to_string_def throw_bad_enum_cast_int_def)
next
  case (Some n)
  moreover from Some have "n \<in> set (FIELDS r)" and "enum_type n = ENUM_cast i"
    using to_string_scan_Some by fastforce+
  moreover from this have "ENUM_cast i \<in> enum_type ` set (FIELDS r)"
    by (metis imageI)
  ultimately show ?thesis
    by (auto simp: to_string_def)
qed

theorem to_string_bad_enum_cast_witness:
  "to_string throw_bad_enum_cast_int Color_value Color 5 = Inl (Bad_enum_cast_int 5 ''Color'')
   \<and> to_string throw_bad_enum_cast_int Color_value Color 1 = Inr (Some ''Green'')"
proof -
  have "(to_string throw_bad_enum_cast_int Color_value Color 5 = Inl (Bad_enum_cast_int 5 (ENUM Color)))
      = (ENUM_cast 5 \<notin> Color_value ` set (FIELDS Color))"
    using to_string_bad_enum_cast [of 5 Color_value Color]
    by (rule conjunct2 [THEN conjunct2, THEN conjunct1])
  moreover have "ENUM_cast 5 \<notin> Color_value ` set (FIELDS Color)"
    by (simp add: Color_def ENUM_cast_def)
  moreover have "to_string throw_bad_enum_cast_int Color_value Color 1 = Inr (Some ''Green'')"
    by (simp add: to_string_def Color_def ENUM_cast_def)
  ultimately show ?thesis
    by (simp add: Color_def)
qed

text \<open>
  The claim as first stated compares \<open>i\<close> itself with the enumerator values. For an enum
  whose underlying type has 32 bits, \<open>i = 2^32 + 1\<close> differs from all of 0, 1 and 2, yet
  \<^verbatim>\<open>ENUM(i)\<close> is 1: \<open>to_string\<close> returns \<open>Green\<close> and raises nothing.
\<close>

theorem to_string_truncated_value_counterexample:
  "FIELDS Color = [''Red'', ''Green'', ''Blue'']
   \<and> sint (4294967297 :: int64_t) \<noteq> sint (Color_value ''Red'')
   \<and> sint (4294967297 :: int64_t) \<noteq> sint (Color_value ''Green'')
   \<and> sint (4294967297 :: int64_t) \<noteq> sint (Color_value ''Blue'')
   \<and> to_string throw_bad_enum_cast_int Color_value Color 4294967297 = Inr (Some ''Green'')"
  by (simp add: Color_def to_string_def ENUM_cast_def)

text \<open>
  C5: \<open>from_string(s)\<close> calls the signal, with the string \<open>s\<close> and the enum's registered
  name, exactly when \<open>s\<close> equals none of the registered names; when it equals one, the
  value of that enumerator is returned and nothing is raised. With the signal of the
  specification the call raises the bad-enum-cast failure carrying \<open>s\<close> and the name, and
  no other failure is ever raised.
\<close>

theorem from_string_bad_enum_cast:
  "(s \<notin> set (FIELDS r) \<longrightarrow>
      from_string throw enum_type r s = (case throw s (ENUM r) of Some e \<Rightarrow> Inl e | None \<Rightarrow> Inr 0))
   \<and> (s \<in> set (FIELDS r) \<longrightarrow> from_string throw enum_type r s = Inr (enum_type s))
   \<and> (from_string throw_bad_enum_cast_str enum_type r s = Inl (Bad_enum_cast_str s (ENUM r)))
       = (s \<notin> set (FIELDS r))
   \<and> (from_string throw_bad_enum_cast_str enum_type r s = Inl e)
       = (s \<notin> set (FIELDS r) \<and> e = Bad_enum_cast_str s (ENUM r))"
  by (auto simp: from_string_def throw_bad_enum_cast_str_def from_string_scan_member)

theorem from_string_bad_enum_cast_witness:
  "from_string throw_bad_enum_cast_str Color_value Color ''Purple'' = Inl (Bad_enum_cast_str ''Purple'' ''Color'')
   \<and> from_string throw_bad_enum_cast_str Color_value Color ''blue'' = Inl (Bad_enum_cast_str ''blue'' ''Color'')
   \<and> from_string throw_bad_enum_cast_str Color_value Color ''Blue'' = Inr 2"
proof -
  have "(from_string throw_bad_enum_cast_str Color_value Color ''Purple''
        = Inl (Bad_enum_cast_str ''Purple'' (ENUM Color))) = (''Purple'' \<notin> set (FIELDS Color))"
    using from_string_bad_enum_cast [of "''Purple''" Color]
    by (rule conjunct2 [THEN conjunct2, THEN conjunct1])
  moreover
  have "(from_string throw_bad_enum_cast_str Color_value Color ''blue''
        = Inl (Bad_enum_cast_str ''blue'' (ENUM Color))) = (''blue'' \<notin> set (FIELDS Color))"
    using from_string_bad_enum_cast [of "''blue''" Color]
    by (rule conjunct2 [THEN conjunct2, THEN conjunct1])
  moreover
  have "''Blue'' \<in> set (FIELDS Color)
      \<longrightarrow> from_string throw_bad_enum_cast_str Color_value Color ''Blue'' = Inr (Color_value ''Blue'')"
    using from_string_bad_enum_cast [of "''Blue''" Color]
    by (rule conjunct2 [THEN conjunct1])
  ultimately show ?thesis
    by (simp add: Color_def)
qed

text \<open>
  C6: \<open>from_string(s)\<close> scans the registered names in declaration order and returns the
  value of the first one equal to \<open>s\<close>: the result is that of \<open>find\<close> on the list of
  names; if the name at index \<open>j\<close> equals \<open>s\<close> and no earlier one does, the value of the
  enumerator at index \<open>j\<close> is returned. The comparison is \<^verbatim>\<open>strcmp\<close> against zero, which
  holds exactly for equal strings, so it is case-sensitive.
\<close>

theorem from_string_first_match:
  "from_string throw enum_type r s =
     (case find (\<lambda>elem. elem = s) (FIELDS r) of
        Some elem \<Rightarrow> Inr (enum_type elem)
      | None \<Rightarrow> (case throw s (ENUM r) of Some e \<Rightarrow> Inl e | None \<Rightarrow> Inr 0))
   \<and> (j < length (FIELDS r) \<and> FIELDS r ! j = s \<and> s \<notin> set (take j (FIELDS r))
        \<longrightarrow> from_string throw enum_type r s = Inr (enum_type (FIELDS r ! j)))
   \<and> (strcmp s elem = 0) = (s = elem)"
proof (intro conjI impI)
  show "from_string throw enum_type r s =
     (case find (\<lambda>elem. elem = s) (FIELDS r) of
        Some elem \<Rightarrow> Inr (enum_type elem)
      | None \<Rightarrow> (case throw s (ENUM r) of Some e \<Rightarrow> Inl e | None \<Rightarrow> Inr 0))"
    by (simp add: from_string_def from_string_scan_find split: option.splits)
  show "(strcmp s elem = 0) = (s = elem)"
    by (rule strcmp_zero_iff)
  assume "j < length (FIELDS r) \<and> FIELDS r ! j = s \<and> s \<notin> set (take j (FIELDS r))"
  then have "s \<in> set (FIELDS r)" and "FIELDS r ! j = s"
    by auto
  then show "from_string throw enum_type r s = Inr (enum_type (FIELDS r ! j))"
    by (simp add: from_string_def from_string_scan_member)
qed

theorem from_string_first_match_witness:
  "from_string throw_bad_enum_cast_str Color_value Color ''Blue'' = Inr 2
   \<and> find (\<lambda>elem. elem = ''blue'') (FIELDS Color) = None
   \<and> strcmp ''blue'' ''Blue'' \<noteq> 0"
  using from_string_first_match [of throw_bad_enum_cast_str Color_value Color "''Blue''" 2 "''Blue''"]
    from_string_first_match [of throw_bad_enum_cast_str Color_value Color "''blue''" 0 "''Blue''"]
  by (simp add: Color_def)

text \<open>
  C10: when the signal returns instead of raising, \<open>to_string\<close> on a value that matches
  no case label returns the null pointer, and \<open>from_string\<close> on a string that matches no
  name returns the value-initialised enum, zero.
\<close>

theorem signal_returns:
  "(throw_i i (ENUM r) = None \<and> ENUM_cast i \<notin> enum_type ` set (FIELDS r)
      \<longrightarrow> to_string throw_i enum_type r i = Inr None)
   \<and> (throw_s s (ENUM r) = None \<and> s \<notin> set (FIELDS r)
      \<longrightarrow> from_string throw_s enum_type r s = Inr 0)"
  using to_string_scan_None_iff [of enum_type "FIELDS r" "ENUM_cast i"]
  by (auto simp: to_string_def from_string_def from_string_scan_member)

theorem signal_returns_witness:
  "to_string returning_signal Color_value Color 5 = Inr None
   \<and> from_string returning_signal Color_value Color ''Purple'' = Inr 0"
  using signal_returns [of returning_signal 5 Color Color_value returning_signal "''Purple''"]
  by (simp add: Color_def returning_signal_def ENUM_cast_def)

subsection \<open>Enum traversal\<close>

lemma visit_fields_invoke_each:
  "visit_fields enum_type v fs s = invoke_each (\<lambda>(x, n). v x n) (map (\<lambda>n. (enum_type n, n)) fs) s"
  by (induction fs arbitrary: s) (auto simp: FC_REFLECT_VISIT_ENUM_def split: sum.splits)

lemma invoke_each_record_enumerator:
  "invoke_each (\<lambda>(x, n). record_enumerator x n) cs log = Inr (log @ cs)"
  by (induction cs arbitrary: log) (auto simp: record_enumerator_def)

text \<open>
  C9: \<open>visit\<close> of an enum descriptor invokes the visitor once for each registered
  enumerator, in declared order, passing the enumerator's own value (that of the host
  enum, whatever it is) and its declared name.
\<close>

theorem enum_visit_in_declared_order:
  "enum_visit enum_type r v s = invoke_each (\<lambda>(x, n). v x n) (enumerators enum_type r) s
   \<and> enum_visit enum_type r record_enumerator [] = Inr (enumerators enum_type r)
   \<and> map snd (enumerators enum_type r) = FIELDS r
   \<and> map fst (enumerators enum_type r) = map enum_type (FIELDS r)"
  by (simp add: enum_visit_def enumerators_def visit_fields_invoke_each
      invoke_each_record_enumerator comp_def)

text \<open>
  \<open>Priority\<close> has the values 10 and 7: they arrive as they are, in declared order.
\<close>

theorem enum_visit_in_declared_order_witness:
  "enum_visit Color_value Color (record_enumerator :: 32 word \<Rightarrow> string \<Rightarrow> (32 word \<times> string) list \<Rightarrow> unit + (32 word \<times> string) list) []
     = Inr [(0, ''Red''), (1, ''Green''), (2, ''Blue'')]
   \<and> enum_visit Priority_value Priority (record_enumerator :: 32 word \<Rightarrow> string \<Rightarrow> (32 word \<times> string) list \<Rightarrow> unit + (32 word \<times> string) list) []
     = Inr [(10, ''Low''), (7, ''High'')]"
proof -
  have listed: "enumerators Color_value Color = [(0, ''Red''), (1, ''Green''), (2, ''Blue'')]"
    "enumerators Priority_value Priority = [(10, ''Low''), (7, ''High'')]"
    by (simp_all add: enumerators_def Color_def Priority_def)
  have "enum_visit Color_value Color (record_enumerator :: 32 word \<Rightarrow> string \<Rightarrow> (32 word \<times> string) list \<Rightarrow> unit + (32 word \<times> string) list) []
      = Inr (enumerators Color_value Color)"
    using enum_visit_in_declared_order [of Color_value Color]
    by (rule conjunct2 [THEN conjunct1])
  moreover
  have "enum_visit Priority_value Priority (record_enumerator :: 32 word \<Rightarrow> string \<Rightarrow> (32 word \<times> string) list \<Rightarrow> unit + (32 word \<times> string) list) []
      = Inr (enumerators Priority_value Priority)"
    using enum_visit_in_declared_order [of Priority_value Priority]
    by (rule conjunct2 [THEN conjunct1])
  ultimately show ?thesis
    unfolding listed by simp
qed

subsection \<open>Registered and unregistered types\<close>

lemma expand_is_defined:
  "expand scope reg = Some scope' \<Longrightarrow>
     is_defined (scope' T) \<longleftrightarrow> is_defined (scope T) \<or> T = registered_type reg"
  by (cases reg) (auto split: if_splits option.splits)

lemma expand_other:
  "expand scope reg = Some scope' \<Longrightarrow> T \<noteq> registered_type reg \<Longrightarrow> scope' T = scope T"
  by (cases reg) (auto split: if_splits option.splits)

lemma translation_unit_is_defined:
  "translation_unit scope regs = Some scope' \<Longrightarrow>
     is_defined (scope' T) \<longleftrightarrow> is_defined (scope T) \<or> T \<in> registered_type ` set regs"
proof (induction regs arbitrary: scope)
  case Nil
  then show ?case by simp
next
  case (Cons reg regs)
  then obtain mid where mid: "expand scope reg = Some mid" "translation_unit mid regs = Some scope'"
    by (auto split: option.splits)
  from Cons.IH [OF mid(2)] expand_is_defined [OF mid(1), of T] show ?case
    by auto
qed

lemma translation_unit_other:
  "translation_unit scope regs = Some scope' \<Longrightarrow> T \<notin> registered_type ` set regs \<Longrightarrow> scope' T = scope T"
proof (induction regs arbitrary: scope)
  case Nil
  then show ?case by simp
next
  case (Cons reg regs)
  then obtain mid where mid: "expand scope reg = Some mid" "translation_unit mid regs = Some scope'"
    by (auto split: option.splits)
  from Cons.prems(2) have "T \<noteq> registered_type reg" "T \<notin> registered_type ` set regs"
    by auto
  with Cons.IH [OF mid(2)] expand_other [OF mid(1)] show ?case
    by simp
qed

lemma scenario_compiles: "translation_unit no_registration scenario = Some scenario_scope"
  by (simp add: scenario_def scenario_scope_def FC_REFLECT_def no_registration_def
      Point_def Point3D_def Color_def)

text \<open>
  C7: after the registrations of a translation unit that compiles, \<open>is_defined\<close> of
  \<^verbatim>\<open>reflector<T>\<close> is true exactly for the types a registration names. The primary
  template reports false; a struct specialisation and an enum specialisation report
  true.
\<close>

theorem is_defined_iff_registered:
  "(translation_unit no_registration regs = Some scope
      \<longrightarrow> is_defined (scope T) = (T \<in> registered_type ` set regs))
   \<and> is_defined Unspecialized = False
   \<and> is_defined (Struct_spec sr) = True
   \<and> is_defined (Enum_spec er) = True"
  using translation_unit_is_defined [of no_registration regs scope T]
  by (simp add: no_registration_def)

theorem is_defined_iff_registered_witness:
  "translation_unit no_registration scenario = Some scenario_scope
   \<and> is_defined (scenario_scope ''Point'')
   \<and> is_defined (scenario_scope ''Point3D'')
   \<and> is_defined (scenario_scope ''Color'')
   \<and> \<not> is_defined (scenario_scope ''Widget'')"
  using is_defined_iff_registered [of scenario scenario_scope "''Point''"]
    is_defined_iff_registered [of scenario scenario_scope "''Point3D''"]
    is_defined_iff_registered [of scenario scenario_scope "''Color''"]
    is_defined_iff_registered [of scenario scenario_scope "''Widget''"]
    scenario_compiles
  by (simp add: scenario_def FC_REFLECT_def)

text \<open>
  C8, as amended: for a type that no registration names, \<^verbatim>\<open>reflector<T>\<close> is the primary
  template. It declares \<open>is_defined\<close>, so the query compiles, and the answer is false. What
  it does not declare, and what therefore fails to build for such a type, is \<open>visit\<close>,
  \<open>total_member_count\<close> and \<open>local_member_count\<close>.
\<close>

theorem unregistered_type_queries:
  "translation_unit no_registration regs = Some scope \<and> T \<notin> registered_type ` set regs
     \<longrightarrow> declares (scope T) M_is_defined \<and> is_defined (scope T) = False
       \<and> \<not> declares (scope T) M_visit
       \<and> \<not> declares (scope T) M_total_member_count
       \<and> \<not> declares (scope T) M_local_member_count"
proof
  assume "translation_unit no_registration regs = Some scope \<and> T \<notin> registered_type ` set regs"
  then have "scope T = Unspecialized"
    using translation_unit_other [of no_registration regs scope T]
    by (simp add: no_registration_def)
  then show "declares (scope T) M_is_defined \<and> is_defined (scope T) = False
       \<and> \<not> declares (scope T) M_visit
       \<and> \<not> declares (scope T) M_total_member_count
       \<and> \<not> declares (scope T) M_local_member_count"
    by simp
qed

theorem unregistered_type_queries_witness:
  "declares (scenario_scope ''Gadget'') M_is_defined \<and> is_defined (scenario_scope ''Gadget'') = False
   \<and> \<not> declares (scenario_scope ''Gadget'') M_visit
   \<and> \<not> declares (scenario_scope ''Gadget'') M_total_member_count"
  using unregistered_type_queries [of scenario scenario_scope "''Gadget''"] scenario_compiles
  by (simp add: scenario_def FC_REFLECT_def)

text \<open>
  The claim as first stated has the query of \<open>is_defined\<close> itself rejected by the build.
  \<open>Widget\<close> is registered nowhere in the scenario; the query is declared and answers
  false.
\<close>

theorem is_defined_unregistered_counterexample:
  "translation_unit no_registration scenario = Some scenario_scope
   \<and> ''Widget'' \<notin> registered_type ` set scenario
   \<and> declares (scenario_scope ''Widget'') M_is_defined
   \<and> is_defined (scenario_scope ''Widget'') = False"
  using scenario_compiles
  by (simp add: scenario_def FC_REFLECT_def scenario_scope_def no_registration_def)

end
